theory Spec2Isabelle
  imports Complex_Main
begin

section \<open>Strings, paths and the two regular expressions\<close>

text \<open>
  The audio segmentation core is \<^verbatim>\<open>app/utils/audacity_handler.py\<close>, class
  \<^verbatim>\<open>AudioProcessor\<close>. Python strings are modelled as \<open>string\<close>; a character is one
  code point below 256, and among those \<^verbatim>\<open>\d\<close> matches exactly the ten ASCII digits.
\<close>

definition is_digit :: "char \<Rightarrow> bool" where
  "is_digit c = (c \<in> set ''0123456789'')"

definition startswith :: "string \<Rightarrow> string \<Rightarrow> bool" where
  "startswith s p = (take (length p) s = p)"

definition endswith :: "string \<Rightarrow> string \<Rightarrow> bool" where
  "endswith s p = (length p \<le> length s \<and> drop (length s - length p) s = p)"

text \<open>\<^verbatim>\<open>int(ds)\<close> on a string of decimal digits.\<close>

definition py_int :: "string \<Rightarrow> nat" where
  "py_int ds = foldl (\<lambda>n c. 10 * n + (of_char c - 48)) 0 ds"

text \<open>
  \<^verbatim>\<open>float(s)\<close> on a string of the shape \<^verbatim>\<open>\d+\.\d+\<close>, the only strings the parser
  passes to it (lemma \<open>findall_decimal\<close> below); on these \<^verbatim>\<open>float\<close> never raises. The
  value is the exact decimal number: timestamps are rationals, and the rounding and the
  overflow of the binary floating-point format are not modelled.
\<close>

definition py_float :: "string \<Rightarrow> rat" where
  "py_float s =
     (let ip = takeWhile is_digit s;
          fp = takeWhile is_digit (drop (Suc (length ip)) s)
      in of_nat (py_int ip) + of_nat (py_int fp) / 10 ^ length fp)"

text \<open>\<^verbatim>\<open>str(n)\<close> for a non-negative integer, \<^verbatim>\<open>s.zfill(w)\<close> for an unsigned \<open>s\<close>.\<close>

fun str_nat :: "nat \<Rightarrow> string" where
  "str_nat n =
     (if n < 10 then [''0123456789'' ! n]
      else str_nat (n div 10) @ [''0123456789'' ! (n mod 10)])"

declare str_nat.simps [simp del]

definition zfill :: "nat \<Rightarrow> string \<Rightarrow> string" where
  "zfill w s = replicate (w - length s) (CHR ''0'') @ s"

text \<open>
  \<^verbatim>\<open>os.path.dirname\<close> and the two-argument \<^verbatim>\<open>os.path.join\<close> of \<^verbatim>\<open>posixpath\<close>.
\<close>

definition dirname :: "string \<Rightarrow> string" where
  "dirname p =
     (let head = rev (dropWhile (\<lambda>c. c \<noteq> CHR ''/'') (rev p)) in
      if head \<noteq> [] \<and> \<not> list_all (\<lambda>c. c = CHR ''/'') head
      then rev (dropWhile (\<lambda>c. c = CHR ''/'') (rev head))
      else head)"

definition join :: "string \<Rightarrow> string \<Rightarrow> string" where
  "join a b =
     (if startswith b ''/'' then b
      else if a = [] \<or> endswith a ''/'' then a @ b
      else a @ ''/'' @ b)"

text \<open>
  The group \<^verbatim>\<open>(\d+\.\d+)\<close> at the head of the input: the first \<^verbatim>\<open>\d+\<close> is greedy and
  takes the whole digit run (giving one back leaves a digit where the dot must be),
  then the dot, then a second non-empty digit run. The result is the text of the group
  and the input after the match.
\<close>

definition match_timestamp :: "string \<Rightarrow> (string \<times> string) option" where
  "match_timestamp s =
     (let d1 = takeWhile is_digit s; r1 = dropWhile is_digit s in
      if d1 = [] then None
      else (case r1 of
              [] \<Rightarrow> None
            | c # r2 \<Rightarrow>
                if c \<noteq> CHR ''.'' then None
                else (let d2 = takeWhile is_digit r2; r3 = dropWhile is_digit r2 in
                      if d2 = [] then None else Some (d1 @ ''.'' @ d2, r3))))"

text \<open>A pattern \<^verbatim>\<open>label(\d+\.\d+)\<close> tried at the head of the input.\<close>

definition match_at :: "string \<Rightarrow> string \<Rightarrow> (string \<times> string) option" where
  "match_at label s =
     (if startswith s label then match_timestamp (drop (length label) s) else None)"

text \<open>
  \<^verbatim>\<open>re.findall(label + r'(\d+\.\d+)', s)\<close>: the leftmost match, then the scan goes on
  behind it; where no match starts, one character is skipped. With one group in the
  pattern the result lists the group texts.
\<close>

function findall :: "string \<Rightarrow> string \<Rightarrow> string list" where
  "findall label [] = []"
| "findall label (c # cs) =
     (case match_at label (c # cs) of
        Some (g, rest) \<Rightarrow> g # findall label rest
      | None \<Rightarrow> findall label cs)"
  by pat_completeness auto
termination
proof -
  have shorter: "length rest < length s"
    if m: "match_at label s = Some (g, rest)" for label s g rest
  proof -
    have le: "length (dropWhile is_digit xs) \<le> length xs" for xs
      by (simp add: length_dropWhile_le)
    let ?t = "drop (length label) s"
    from m have t: "match_timestamp ?t = Some (g, rest)"
      by (auto simp: match_at_def split: if_splits)
    then obtain r2 where r1: "dropWhile is_digit ?t = CHR ''.'' # r2"
      and r: "rest = dropWhile is_digit r2"
      by (auto simp: match_timestamp_def Let_def split: if_splits list.splits)
    have "length rest \<le> length r2" using r le by simp
    moreover have "length r2 < length (dropWhile is_digit ?t)" using r1 by simp
    moreover have "length (dropWhile is_digit ?t) \<le> length ?t" by (rule le)
    moreover have "length ?t \<le> length s" by simp
    ultimately show ?thesis by linarith
  qed
  show ?thesis
    by (relation "measure (\<lambda>(label, s). length s)") (auto dest: shorter)
qed

text \<open>
  \<^verbatim>\<open>re.match(r'(\d+)_segments', folder)\<close>: a non-empty digit run at the very start of the
  name, followed by the literal text; the result is the group.
\<close>

definition match_run_number :: "string \<Rightarrow> string option" where
  "match_run_number folder =
     (let d = takeWhile is_digit folder; r = dropWhile is_digit folder in
      if d \<noteq> [] \<and> startswith r ''_segments'' then Some d else None)"

section \<open>Data, errors and effects\<close>

text \<open>
  A silence point is the dictionary \<^verbatim>\<open>{'start': ..., 'end': ...}\<close> built by the parser.
\<close>

record interval =
  start :: rat
  end_time :: rat

text \<open>
  An element of a command line: a string, or \<open>Num x\<close> for the text \<^verbatim>\<open>str(x)\<close> of a
  number (the formatting of floating-point numbers is not modelled).
\<close>

datatype arg = Lit string | Num rat

text \<open>
  The exceptions that occur. \<open>CalledProcessError rc cmd err\<close> is raised by
  \<^verbatim>\<open>subprocess.run(..., check=True)\<close> on a non-zero exit status; \<open>err\<close> is its attribute
  \<^verbatim>\<open>stderr\<close>, which is \<open>None\<close> unless the call captured the stream. \<open>OSError\<close> stands
  for a failure of a directory operation or of starting the tool. \<open>Exception m\<close> is
  \<^verbatim>\<open>Exception(m)\<close>, and \<open>Exception_fmt p e\<close> is \<^verbatim>\<open>Exception(f"p{e}")\<close>, whose message
  is \<open>p\<close> followed by \<^verbatim>\<open>str(e)\<close>; for a \<open>CalledProcessError\<close> that text names the
  command and its exit status.
\<close>

datatype error =
    CalledProcessError int "arg list" "string option"
  | OSError
  | Exception string
  | Exception_fmt string error

text \<open>
  What the program does to its environment, in order: every call into the operating
  system, the tool invocations with what came back (exit status and diagnostic stream,
  or \<open>None\<close> when the tool could not be started), and the log records. The
  \<^verbatim>\<open>print\<close> calls of \<^verbatim>\<open>convert_to_wav\<close> are left out.
\<close>

datatype event =
    Uuid4
  | Makedirs string
  | Listdir string
  | Exists string
  | Run "arg list" "(int \<times> string) option"
  | Log_info string
  | Log_error string
  | Log_error_fmt string error

text \<open>
  The environment is arbitrary: a state of any type and the behaviour of the five
  operations the program uses on it. \<open>sys_makedirs\<close> is
  \<^verbatim>\<open>os.makedirs(p, exist_ok=True)\<close> and answers whether it succeeded; \<open>sys_listdir\<close>
  is \<open>None\<close> where \<^verbatim>\<open>os.listdir\<close> raises; \<open>sys_run\<close> runs a command line to
  completion.
\<close>

record 's system =
  sys_uuid4 :: "'s \<Rightarrow> string \<times> 's"
  sys_makedirs :: "string \<Rightarrow> 's \<Rightarrow> bool \<times> 's"
  sys_listdir :: "string \<Rightarrow> 's \<Rightarrow> string list option"
  sys_exists :: "string \<Rightarrow> 's \<Rightarrow> bool"
  sys_run :: "arg list \<Rightarrow> 's \<Rightarrow> (int \<times> string) option \<times> 's"

type_synonym 's world = "'s \<times> event list"

type_synonym ('s, 'a) action = "'s world \<Rightarrow> (error + 'a) \<times> 's world"

definition return :: "'a \<Rightarrow> ('s, 'a) action" where
  "return x = (\<lambda>w. (Inr x, w))"

definition raise :: "error \<Rightarrow> ('s, 'a) action" where
  "raise e = (\<lambda>w. (Inl e, w))"

definition and_then :: "('s, 'a) action \<Rightarrow> ('a \<Rightarrow> ('s, 'b) action) \<Rightarrow> ('s, 'b) action" where
  "and_then m f = (\<lambda>w. case m w of (Inl e, w') \<Rightarrow> (Inl e, w') | (Inr x, w') \<Rightarrow> f x w')"

definition try_except :: "('s, 'a) action \<Rightarrow> (error \<Rightarrow> ('s, 'a) action) \<Rightarrow> ('s, 'a) action" where
  "try_except m h = (\<lambda>w. case m w of (Inl e, w') \<Rightarrow> h e w' | (Inr x, w') \<Rightarrow> (Inr x, w'))"

definition emit :: "event \<Rightarrow> ('s, unit) action" where
  "emit ev = (\<lambda>(s, tr). (Inr (), (s, tr @ [ev])))"

definition uuid4 :: "'s system \<Rightarrow> ('s, string) action" where
  "uuid4 os = (\<lambda>(s, tr). case sys_uuid4 os s of (u, s') \<Rightarrow> (Inr u, (s', tr @ [Uuid4])))"

definition os_makedirs :: "'s system \<Rightarrow> string \<Rightarrow> ('s, unit) action" where
  "os_makedirs os p =
     (\<lambda>(s, tr). case sys_makedirs os p s of
        (ok, s') \<Rightarrow> (if ok then Inr () else Inl OSError, (s', tr @ [Makedirs p])))"

definition os_listdir :: "'s system \<Rightarrow> string \<Rightarrow> ('s, string list) action" where
  "os_listdir os p =
     (\<lambda>(s, tr). (case sys_listdir os p s of None \<Rightarrow> Inl OSError | Some names \<Rightarrow> Inr names,
                 (s, tr @ [Listdir p])))"

definition os_path_exists :: "'s system \<Rightarrow> string \<Rightarrow> ('s, bool) action" where
  "os_path_exists os p = (\<lambda>(s, tr). (Inr (sys_exists os p s), (s, tr @ [Exists p])))"

text \<open>
  \<^verbatim>\<open>subprocess.run(cmd, stdout=PIPE, stderr=PIPE, text=True, check=True)\<close>, giving the
  attribute \<^verbatim>\<open>stderr\<close> of the completed process.
\<close>

definition subprocess_run_piped :: "'s system \<Rightarrow> arg list \<Rightarrow> ('s, string) action" where
  "subprocess_run_piped os cmd =
     (\<lambda>(s, tr). case sys_run os cmd s of
        (None, s') \<Rightarrow> (Inl OSError, (s', tr @ [Run cmd None]))
      | (Some (rc, err), s') \<Rightarrow>
          (if rc \<noteq> 0 then Inl (CalledProcessError rc cmd (Some err)) else Inr err,
           (s', tr @ [Run cmd (Some (rc, err))])))"

text \<open>
  \<^verbatim>\<open>subprocess.run(cmd, check=True)\<close>: the tool writes its diagnostics to the stream it
  inherits, and the program does not see them.
\<close>

definition subprocess_run :: "'s system \<Rightarrow> arg list \<Rightarrow> ('s, unit) action" where
  "subprocess_run os cmd =
     (\<lambda>(s, tr). case sys_run os cmd s of
        (None, s') \<Rightarrow> (Inl OSError, (s', tr @ [Run cmd None]))
      | (Some (rc, err), s') \<Rightarrow>
          (if rc \<noteq> 0 then Inl (CalledProcessError rc cmd None) else Inr (),
           (s', tr @ [Run cmd (Some (rc, err))])))"

text \<open>\<^verbatim>\<open>f"{x}"\<close> for an attribute that is a string or \<^verbatim>\<open>None\<close>.\<close>

definition str_opt :: "string option \<Rightarrow> string" where
  "str_opt x = (case x of None \<Rightarrow> ''None'' | Some t \<Rightarrow> t)"

definition ffmpeg_path :: string where
  "ffmpeg_path = ''ffmpeg''"

section \<open>The five methods of the processor\<close>

subsection \<open>\<^verbatim>\<open>convert_to_wav\<close>\<close>

definition convert_command :: "string \<Rightarrow> string \<Rightarrow> arg list" where
  "convert_command input_file output_path =
     [Lit ffmpeg_path, Lit ''-i'', Lit input_file, Lit ''-acodec'', Lit ''pcm_s16le'',
      Lit ''-ar'', Lit ''22050'', Lit ''-ac'', Lit ''1'', Lit output_path]"

definition convert_to_wav :: "'s system \<Rightarrow> string \<Rightarrow> ('s, string) action" where
  "convert_to_wav os input_file =
     try_except
       (and_then (uuid4 os) (\<lambda>u.
          let unique_id = take 8 u;
              input_dir = dirname input_file;
              output_dir = join input_dir ''output''
          in and_then (os_makedirs os output_dir) (\<lambda>_.
          let output_filename = ''converted_'' @ unique_id @ ''.wav'';
              output_path = join output_dir output_filename
          in and_then (subprocess_run_piped os (convert_command input_file output_path)) (\<lambda>_.
             and_then (os_path_exists os output_path) (\<lambda>created.
               if \<not> created
               then raise (Exception ''WAV conversion failed: Output file not created'')
               else and_then (emit (Log_info (''Successfully converted to WAV: '' @ output_path)))
                      (\<lambda>_. return output_path))))))
       (\<lambda>e. case e of
          CalledProcessError rc cmd err \<Rightarrow>
            and_then (emit (Log_error (''FFmpeg conversion error: '' @ str_opt err)))
              (\<lambda>_. raise (Exception (''Audio conversion failed: '' @ str_opt err)))
        | _ \<Rightarrow> and_then (emit (Log_error_fmt ''Conversion error: '' e)) (\<lambda>_. raise e))"

subsection \<open>\<^verbatim>\<open>detect_silence\<close>\<close>

definition silence_command :: "string \<Rightarrow> arg list" where
  "silence_command wav_file =
     [Lit ffmpeg_path, Lit ''-i'', Lit wav_file, Lit ''-af'',
      Lit ''silencedetect=noise=-37dB:d=0.5'', Lit ''-f'', Lit ''null'', Lit ''-'']"

definition detect_silence :: "'s system \<Rightarrow> string \<Rightarrow> ('s, string) action" where
  "detect_silence os wav_file =
     try_except
       (subprocess_run_piped os (silence_command wav_file))
       (\<lambda>e. case e of
          CalledProcessError rc cmd err \<Rightarrow>
            and_then (emit (Log_error (''Silence detection error: '' @ str_opt err)))
              (\<lambda>_. raise (Exception (''Silence detection failed: '' @ str_opt err)))
        | _ \<Rightarrow> raise e)"

subsection \<open>\<^verbatim>\<open>parse_silence_points\<close>\<close>

definition parse_silence_points :: "string \<Rightarrow> interval list" where
  "parse_silence_points silence_output =
     (let start_matches = findall ''silence_start: '' silence_output;
          end_matches = findall ''silence_end: '' silence_output
      in map (\<lambda>(s, e). \<lparr>start = py_float s, end_time = py_float e\<rparr>)
           (zip start_matches end_matches))"

subsection \<open>\<^verbatim>\<open>split_audio\<close>\<close>

text \<open>
  The run number, from the listing of the base directory: the names kept by the
  \<^verbatim>\<open>startswith('segments_')\<close> filter, the numbers \<^verbatim>\<open>re.match\<close> finds in them, and
  \<^verbatim>\<open>max(existing_numbers, default=0) + 1\<close>.
\<close>

definition next_number :: "string list \<Rightarrow> nat" where
  "next_number names =
     (let existing_folders = filter (\<lambda>f. startswith f ''segments_'') names;
          existing_numbers =
            concat (map (\<lambda>folder. case match_run_number folder of
                                     None \<Rightarrow> []
                                   | Some d \<Rightarrow> [py_int d]) existing_folders)
      in foldr max existing_numbers 0 + 1)"

definition output_dir_name :: "nat \<Rightarrow> string \<Rightarrow> string" where
  "output_dir_name n u = zfill 2 (str_nat n) @ ''_segments_'' @ take 8 u"

definition fixed_command :: "string \<Rightarrow> string \<Rightarrow> arg list" where
  "fixed_command wav_file output_dir =
     [Lit ffmpeg_path, Lit ''-i'', Lit wav_file, Lit ''-f'', Lit ''segment'',
      Lit ''-segment_time'', Lit ''10'', Lit ''-c'', Lit ''copy'',
      Lit (join output_dir ''segment_%03d.wav'')]"

definition segment_name :: "nat \<Rightarrow> string" where
  "segment_name i = ''segment_'' @ zfill 3 (str_nat (i + 1)) @ ''.wav''"

definition segment_command :: "string \<Rightarrow> string \<Rightarrow> nat \<Rightarrow> interval \<Rightarrow> arg list" where
  "segment_command wav_file output_dir i point =
     [Lit ffmpeg_path, Lit ''-i'', Lit wav_file,
      Lit ''-ss'', Num (max 0 (start point - 1)),
      Lit ''-to'', Num (end_time point + 1),
      Lit ''-c'', Lit ''copy'',
      Lit (join output_dir (segment_name i))]"

text \<open>
  The loop over \<^verbatim>\<open>enumerate(silence_points)\<close>; \<open>i\<close> is the index of the head of the
  remaining list and \<open>segments\<close> the local list the loop appends to.
\<close>

fun extract_loop ::
  "'s system \<Rightarrow> string \<Rightarrow> string \<Rightarrow> nat \<Rightarrow> interval list \<Rightarrow> string list \<Rightarrow> ('s, string list) action"
where
  "extract_loop os wav_file output_dir i [] segments = return segments"
| "extract_loop os wav_file output_dir i (point # rest) segments =
     (let output_segment = join output_dir (segment_name i) in
      and_then (subprocess_run os (segment_command wav_file output_dir i point)) (\<lambda>_.
      and_then (os_path_exists os output_segment) (\<lambda>created.
        extract_loop os wav_file output_dir (i + 1) rest
          (if created then segments @ [output_segment] else segments))))"

declare extract_loop.simps [simp del]

text \<open>
  The argument \<open>silence_points\<close> is \<open>None\<close> when the caller leaves it out.
  \<^verbatim>\<open>not silence_points\<close> holds for \<^verbatim>\<open>None\<close> and for the empty list.
\<close>

definition falsy :: "interval list option \<Rightarrow> bool" where
  "falsy silence_points = (case silence_points of None \<Rightarrow> True | Some ps \<Rightarrow> ps = [])"

definition points_of :: "interval list option \<Rightarrow> interval list" where
  "points_of silence_points = (case silence_points of None \<Rightarrow> [] | Some ps \<Rightarrow> ps)"

definition split_audio ::
  "'s system \<Rightarrow> string \<Rightarrow> interval list option \<Rightarrow> ('s, string list) action"
where
  "split_audio os wav_file silence_points =
     try_except
       (let base_output_dir = dirname wav_file in
        and_then (os_listdir os base_output_dir) (\<lambda>names.
        and_then (uuid4 os) (\<lambda>u.
          let output_dir = join base_output_dir (output_dir_name (next_number names) u) in
          and_then (os_makedirs os output_dir) (\<lambda>_.
          and_then
            (if falsy silence_points
             then subprocess_run os (fixed_command wav_file output_dir)
             else and_then (extract_loop os wav_file output_dir 0 (points_of silence_points) [])
                    (\<lambda>segments. return ()))
            (\<lambda>_. and_then (os_listdir os output_dir)
                   (\<lambda>files. return (filter (\<lambda>f. endswith f ''.wav'') files)))))))
       (\<lambda>e. case e of
          CalledProcessError rc cmd err \<Rightarrow>
            and_then (emit (Log_error_fmt ''Audio splitting error: '' e))
              (\<lambda>_. raise (Exception_fmt ''Failed to split audio: '' e))
        | _ \<Rightarrow> raise e)"

subsection \<open>\<^verbatim>\<open>process_audio\<close>\<close>

definition process_audio :: "'s system \<Rightarrow> string \<Rightarrow> ('s, string list) action" where
  "process_audio os input_file =
     try_except
       (and_then (convert_to_wav os input_file) (\<lambda>wav_file.
        and_then (detect_silence os wav_file) (\<lambda>silence_output.
          let silence_points = parse_silence_points silence_output in
          and_then (split_audio os wav_file (Some silence_points)) (\<lambda>segments.
          and_then (emit (Log_info (''Generated '' @ str_nat (length segments) @ '' audio segments'')))
            (\<lambda>_. return segments)))))
       (\<lambda>e. and_then (emit (Log_error_fmt ''Audio processing failed: '' e)) (\<lambda>_. raise e))"

text \<open>The tool invocations in a trace, with what came back.\<close>

definition tool_calls :: "event list \<Rightarrow> (arg list \<times> (int \<times> string) option) list" where
  "tool_calls tr = concat (map (\<lambda>ev. case ev of Run cmd out \<Rightarrow> [(cmd, out)] | _ \<Rightarrow> []) tr)"

text \<open>A tool invocation that ran and exited with status 0.\<close>

definition exited_zero :: "(arg list \<times> (int \<times> string) option) \<Rightarrow> bool" where
  "exited_zero call = (case snd call of Some (rc, err) \<Rightarrow> rc = 0 | None \<Rightarrow> False)"

text \<open>
  The command lines the loop of \<^verbatim>\<open>split_audio\<close> issues for the points \<open>ps\<close>, the first
  of which has index \<open>i\<close>, when no call fails.
\<close>

definition extraction_commands :: "string \<Rightarrow> string \<Rightarrow> nat \<Rightarrow> interval list \<Rightarrow> arg list list" where
  "extraction_commands wav_file output_dir i ps =
     map (\<lambda>(j, p). segment_command wav_file output_dir j p) (enumerate i ps)"

text \<open>
  The directory a run of \<^verbatim>\<open>split_audio\<close> creates, from the listing of the base directory
  and the identifier it draws, and the three steps of the allocation in the trace.
\<close>

definition allocated_dir :: "string \<Rightarrow> string list \<Rightarrow> string \<Rightarrow> string" where
  "allocated_dir wav_file names u = join (dirname wav_file) (output_dir_name (next_number names) u)"

definition allocation :: "string \<Rightarrow> string list \<Rightarrow> string \<Rightarrow> event list" where
  "allocation wav_file names u =
     [Listdir (dirname wav_file), Uuid4, Makedirs (allocated_dir wav_file names u)]"


text \<open>
  The path \<^verbatim>\<open>convert_to_wav\<close> writes to, from the input path and the identifier it draws.
\<close>

definition converted_path :: "string \<Rightarrow> string \<Rightarrow> string" where
  "converted_path input_file u =
     join (join (dirname input_file) ''output'') (''converted_'' @ take 8 u @ ''.wav'')"

section \<open>A simulated environment\<close>

text \<open>
  One concrete environment, on which the model is run at explicit inputs: the file
  system is the list of the paths that exist, identifiers are drawn from a prepared
  list, and the tool is scripted. A command for which \<open>fails\<close> gives a diagnostic
  exits with status 1 and that text on its diagnostic stream; the silence analysis
  prints \<open>detect_output\<close>; the fixed-length segmentation writes three segment files
  next to its output pattern; every other command creates its last argument.
\<close>

record sim_state =
  paths :: "string list"
  fresh_ids :: "string list"

definition basename :: "string \<Rightarrow> string" where
  "basename p = rev (takeWhile (\<lambda>c. c \<noteq> CHR ''/'') (rev p))"

definition sim_run ::
  "string \<Rightarrow> (arg list \<Rightarrow> string option) \<Rightarrow> arg list \<Rightarrow> sim_state \<Rightarrow>
   (int \<times> string) option \<times> sim_state"
where
  "sim_run detect_output fails cmd s =
     (case fails cmd of
        Some diagnostic \<Rightarrow> (Some (1, diagnostic), s)
      | None \<Rightarrow>
          if Lit ''silencedetect=noise=-37dB:d=0.5'' \<in> set cmd
          then (Some (0, detect_output), s)
          else (case rev cmd of
                  Lit out # _ \<Rightarrow>
                    if Lit ''segment'' \<in> set cmd
                    then (Some (0, []),
                          s\<lparr>paths := paths s @
                               map (join (dirname out))
                                 [''segment_000.wav'', ''segment_001.wav'', ''segment_002.wav'']\<rparr>)
                    else (Some (0, []), s\<lparr>paths := paths s @ [out]\<rparr>)
                | _ \<Rightarrow> (None, s)))"

definition sim :: "string \<Rightarrow> (arg list \<Rightarrow> string option) \<Rightarrow> sim_state system" where
  "sim detect_output fails =
     \<lparr>sys_uuid4 = (\<lambda>s. case fresh_ids s of
                          [] \<Rightarrow> (''00000000-0000-4000-8000-000000000000'', s)
                        | u # us \<Rightarrow> (u, s\<lparr>fresh_ids := us\<rparr>)),
      sys_makedirs = (\<lambda>p s. (True, if p \<in> set (paths s) then s else s\<lparr>paths := paths s @ [p]\<rparr>)),
      sys_listdir = (\<lambda>p s. if p \<in> set (paths s)
                            then Some (map basename
                                         (filter (\<lambda>q. q \<noteq> p \<and> dirname q = p) (paths s)))
                            else None),
      sys_exists = (\<lambda>p s. p \<in> set (paths s)),
      sys_run = sim_run detect_output fails\<rparr>"

text \<open>
  The upload \<^verbatim>\<open>/u/a.mp3\<close>, and the state after its conversion to
  \<^verbatim>\<open>/u/output/converted_1a2b3c4d.wav\<close>.
\<close>

definition uploaded :: sim_state where
  "uploaded =
     \<lparr>paths = [''/u'', ''/u/a.mp3''],
      fresh_ids = [''1a2b3c4d-0000-4000-8000-000000000000'',
                   ''5e6f7a8b-0000-4000-8000-000000000000'',
                   ''9c0d1e2f-0000-4000-8000-000000000000'']\<rparr>"

definition converted :: sim_state where
  "converted =
     \<lparr>paths = [''/u'', ''/u/a.mp3'', ''/u/output'', ''/u/output/converted_1a2b3c4d.wav''],
      fresh_ids = [''5e6f7a8b-0000-4000-8000-000000000000'',
                   ''9c0d1e2f-0000-4000-8000-000000000000'']\<rparr>"

text \<open>
  Detector outputs: the one of the specification's scenario, whose second silence is
  not terminated, and one whose first onset carries a sign.
\<close>

definition scenario_text :: string where
  "scenario_text =
     ''silence_start: 1.000000'' @ [CHR 0x0A] @ ''silence_end: 3.500000'' @ [CHR 0x0A] @
     ''silence_start: 10.000000''"

definition signed_onset_text :: string where
  "signed_onset_text =
     ''silence_start: -0.001'' @ [CHR 0x0A] @ ''silence_end: 2.5'' @ [CHR 0x0A] @
     ''silence_start: 10.0'' @ [CHR 0x0A] @ ''silence_end: 12.0''"

text \<open>
  The states and traces of the runs evaluated below: the converted asset \<open>wav_1\<close>, the
  directory \<open>out_1\<close> its split allocates, the states after the identifier is drawn, after
  the directory is made, after one extraction and after the fixed-length segmentation;
  a tool that fails on the extraction ending at second 13, three silence points, and the
  command lines and traces that result.
\<close>

definition wav_1 :: string where
  "wav_1 = ''/u/output/converted_1a2b3c4d.wav''"

definition out_1 :: string where
  "out_1 = ''/u/output/01_segments_5e6f7a8b''"

definition drawn :: sim_state where
  "drawn =
     \<lparr>paths = [''/u'', ''/u/a.mp3'', ''/u/output'', ''/u/output/converted_1a2b3c4d.wav''],
      fresh_ids = [''9c0d1e2f-0000-4000-8000-000000000000'']\<rparr>"

definition allocated :: sim_state where
  "allocated =
     \<lparr>paths = [''/u'', ''/u/a.mp3'', ''/u/output'', ''/u/output/converted_1a2b3c4d.wav'',
               ''/u/output/01_segments_5e6f7a8b''],
      fresh_ids = [''9c0d1e2f-0000-4000-8000-000000000000'']\<rparr>"

definition extracted :: sim_state where
  "extracted =
     \<lparr>paths = [''/u'', ''/u/a.mp3'', ''/u/output'', ''/u/output/converted_1a2b3c4d.wav'',
               ''/u/output/01_segments_5e6f7a8b'',
               ''/u/output/01_segments_5e6f7a8b/segment_001.wav''],
      fresh_ids = [''9c0d1e2f-0000-4000-8000-000000000000'']\<rparr>"

definition scenario_trace :: "event list" where
  "scenario_trace =
     [Listdir ''/u/output'', Uuid4, Makedirs ''/u/output/01_segments_5e6f7a8b'',
      Run [Lit ''ffmpeg'', Lit ''-i'', Lit ''/u/output/converted_1a2b3c4d.wav'',
           Lit ''-ss'', Num 0, Lit ''-to'', Num (9 / 2), Lit ''-c'', Lit ''copy'',
           Lit ''/u/output/01_segments_5e6f7a8b/segment_001.wav''] (Some (0, [])),
      Exists ''/u/output/01_segments_5e6f7a8b/segment_001.wav'',
      Listdir ''/u/output/01_segments_5e6f7a8b'']"


definition failing_second :: "arg list \<Rightarrow> string option" where
  "failing_second cmd =
     (if Num 13 \<in> set cmd then Some ''Invalid data found when processing input'' else None)"

definition three_points :: "interval list" where
  "three_points =
     [\<lparr>start = 1, end_time = 7 / 2\<rparr>, \<lparr>start = 10, end_time = 12\<rparr>,
      \<lparr>start = 20, end_time = 22\<rparr>]"

definition first_extraction :: "arg list" where
  "first_extraction =
     [Lit ''ffmpeg'', Lit ''-i'', Lit ''/u/output/converted_1a2b3c4d.wav'',
      Lit ''-ss'', Num 0, Lit ''-to'', Num (9 / 2), Lit ''-c'', Lit ''copy'',
      Lit ''/u/output/01_segments_5e6f7a8b/segment_001.wav'']"

definition second_extraction :: "arg list" where
  "second_extraction =
     [Lit ''ffmpeg'', Lit ''-i'', Lit ''/u/output/converted_1a2b3c4d.wav'',
      Lit ''-ss'', Num 9, Lit ''-to'', Num 13, Lit ''-c'', Lit ''copy'',
      Lit ''/u/output/01_segments_5e6f7a8b/segment_002.wav'']"

definition failing_trace :: "event list" where
  "failing_trace =
     [Listdir ''/u/output'', Uuid4, Makedirs ''/u/output/01_segments_5e6f7a8b'',
      Run first_extraction (Some (0, [])),
      Exists ''/u/output/01_segments_5e6f7a8b/segment_001.wav'',
      Run second_extraction (Some (1, ''Invalid data found when processing input'')),
      Log_error_fmt ''Audio splitting error: '' (CalledProcessError 1 second_extraction None)]"


definition identified :: sim_state where
  "identified =
     \<lparr>paths = [''/u'', ''/u/a.mp3''],
      fresh_ids = [''5e6f7a8b-0000-4000-8000-000000000000'',
                   ''9c0d1e2f-0000-4000-8000-000000000000'']\<rparr>"

definition prepared :: sim_state where
  "prepared =
     \<lparr>paths = [''/u'', ''/u/a.mp3'', ''/u/output''],
      fresh_ids = [''5e6f7a8b-0000-4000-8000-000000000000'',
                   ''9c0d1e2f-0000-4000-8000-000000000000'']\<rparr>"

definition conversion_trace :: "event list" where
  "conversion_trace =
     [Uuid4, Makedirs ''/u/output'',
      Run (convert_command ''/u/a.mp3'' wav_1) (Some (0, [])),
      Exists wav_1,
      Log_info ''Successfully converted to WAV: /u/output/converted_1a2b3c4d.wav'']"


definition scenario_run_trace :: "event list" where
  "scenario_run_trace =
     conversion_trace @ [Run (silence_command wav_1) (Some (0, scenario_text))] @ scenario_trace @
     [Log_info ''Generated 1 audio segments'']"

section \<open>The parser\<close>

lemma findall_None: "match_at label (c # cs) = None \<Longrightarrow> findall label (c # cs) = findall label cs"
  by simp

lemma findall_Some:
  "match_at label (c # cs) = Some (g, rest) \<Longrightarrow> findall label (c # cs) = g # findall label rest"
  by simp

lemma match_timestamp_decimal:
  assumes "match_timestamp s = Some (g, r)"
  shows "\<exists>d1 d2. g = d1 @ ''.'' @ d2 \<and> d1 \<noteq> [] \<and> d2 \<noteq> [] \<and> list_all is_digit d1 \<and> list_all is_digit d2"
proof -
  have td: "list_all is_digit (takeWhile is_digit xs)" for xs
    by (induction xs) auto
  from assms obtain r2 where g: "g = takeWhile is_digit s @ ''.'' @ takeWhile is_digit r2"
    and n1: "takeWhile is_digit s \<noteq> []" and n2: "takeWhile is_digit r2 \<noteq> []"
    by (auto simp: match_timestamp_def Let_def split: if_splits list.splits)
  with td[of s] td[of r2] show ?thesis by blast
qed

lemma findall_decimal:
  "g \<in> set (findall label s) \<Longrightarrow>
   \<exists>d1 d2. g = d1 @ ''.'' @ d2 \<and> d1 \<noteq> [] \<and> d2 \<noteq> [] \<and> list_all is_digit d1 \<and> list_all is_digit d2"
proof (induction label s rule: findall.induct)
  case (1 label)
  then show ?case by simp
next
  case (2 label c cs)
  show ?case
  proof (cases "match_at label (c # cs)")
    case None
    with 2 show ?thesis by simp
  next
    case (Some a)
    obtain g' rest where a: "a = (g', rest)" by (cases a)
    from Some a have t: "match_timestamp (drop (length label) (c # cs)) = Some (g', rest)"
      by (auto simp: match_at_def split: if_splits)
    from 2 Some a have "g = g' \<or> g \<in> set (findall label rest)" by simp
    then show ?thesis
    proof
      assume "g = g'"
      with match_timestamp_decimal[OF t] show ?thesis by simp
    next
      assume "g \<in> set (findall label rest)"
      with 2(2)[OF Some a[symmetric]] show ?thesis by simp
    qed
  qed
qed

lemma py_float_nonneg: "0 \<le> py_float s"
  by (simp add: py_float_def Let_def)

lemma py_float_decimal:
  assumes "list_all is_digit d1" "list_all is_digit d2"
  shows "py_float (d1 @ ''.'' @ d2) = of_nat (py_int d1) + of_nat (py_int d2) / 10 ^ length d2"
proof -
  have nd: "\<not> is_digit (CHR ''.'')" by (simp add: is_digit_def)
  have 1: "takeWhile is_digit (d1 @ CHR ''.'' # d2) = d1"
    using assms(1) nd by (induction d1) auto
  have 2: "takeWhile is_digit d2 = d2" using assms(2) by (induction d2) auto
  show ?thesis by (simp add: py_float_def Let_def 1 2)
qed


lemmas parse_eval = Let_def parse_silence_points_def match_at_def match_timestamp_def
  startswith_def is_digit_def py_float_def py_int_def

lemma parse_scenario:
  "parse_silence_points scenario_text = [\<lparr>start = 1, end_time = 7 / 2\<rparr>]"
  by (simp add: scenario_text_def parse_eval)

lemma parse_signed_onset:
  "parse_silence_points signed_onset_text = [\<lparr>start = 10, end_time = 5 / 2\<rparr>]"
  by (simp add: signed_onset_text_def parse_eval)



text \<open>
  Claim C6, as the parser has it. Every interval the parser produces has a start and an
  end that are not negative, whatever the raw text. The order \<open>start < end\<close> is not
  part of what the parser establishes: it pairs the matches by position and compares
  nothing.
\<close>

theorem parse_silence_points_nonnegative:
  "\<forall>p \<in> set (parse_silence_points raw). 0 \<le> start p \<and> 0 \<le> end_time p"
  by (auto simp: parse_silence_points_def Let_def py_float_nonneg dest!: set_zip_leftD)

theorem parse_silence_points_nonnegative_witness:
  "\<lparr>start = 10, end_time = 5 / 2\<rparr> \<in> set (parse_silence_points signed_onset_text) \<and>
   (0::rat) \<le> start \<lparr>start = 10, end_time = 5 / 2\<rparr> \<and>
   (0::rat) \<le> end_time \<lparr>start = 10, end_time = 5 / 2\<rparr>"
  using parse_silence_points_nonnegative [of signed_onset_text]
  by (simp add: parse_signed_onset)

text \<open>
  The invariant \<open>0 \<le> start < end\<close> of claim C6 fails on a detector output whose first
  onset is printed with a sign: the onset pattern does not match it, so the first
  resumption is paired with the second onset.
\<close>

theorem parse_silence_points_order_counterexample:
  "parse_silence_points signed_onset_text = [\<lparr>start = 10, end_time = 5 / 2\<rparr>] \<and>
   \<not> (0 \<le> start (parse_silence_points signed_onset_text ! 0) \<and>
      start (parse_silence_points signed_onset_text ! 0)
        < end_time (parse_silence_points signed_onset_text ! 0))"
  by (simp add: parse_signed_onset)

section \<open>Directory allocation\<close>

lemma startswith_segments_no_number:
  assumes "startswith f ''segments_''"
  shows "match_run_number f = None"
proof -
  from assms obtain cs where "f = CHR ''s'' # cs"
    by (cases f) (auto simp: startswith_def)
  then show ?thesis
    by (simp add: match_run_number_def is_digit_def)
qed

lemma next_number_is_1: "next_number names = 1"
proof -
  have e: "concat (map (\<lambda>folder. case match_run_number folder of None \<Rightarrow> [] | Some d \<Rightarrow> [py_int d])
          (filter (\<lambda>f. startswith f ''segments_'') names)) = []"
    by (induction names) (auto simp: startswith_segments_no_number)
  show ?thesis
    unfolding next_number_def Let_def e by simp
qed

lemma str_nat_small: "n < 10 \<Longrightarrow> str_nat n = [''0123456789'' ! n]"
  by (simp add: str_nat.simps)

lemma str_nat_big: "\<not> n < 10 \<Longrightarrow> str_nat n = str_nat (n div 10) @ [''0123456789'' ! (n mod 10)]"
  by (subst str_nat.simps) simp

lemma output_dir_name_1: "output_dir_name (Suc 0) u = ''01_segments_'' @ take 8 u"
  by (simp add: output_dir_name_def zfill_def str_nat_small)

lemma segment_name_0: "segment_name 0 = ''segment_001.wav''"
  by (simp add: segment_name_def zfill_def str_nat_small numeral_2_eq_2)

lemma segment_name_1: "segment_name (Suc 0) = ''segment_002.wav''"
  by (simp add: segment_name_def zfill_def str_nat_small numeral_2_eq_2)


text \<open>
  Claim C1, evaluated. The base directory of an earlier run holds the converted file
  and the run directory \<^verbatim>\<open>01_segments_5e6f7a8b\<close>. The next run computes the run number
  1 again and names its directory \<^verbatim>\<open>01_segments_9c0d1e2f\<close>: the number 01 is issued a
  second time. By \<open>next_number_is_1\<close> this is so for every listing.
\<close>

theorem run_number_reissued:
  "next_number [''converted_1a2b3c4d.wav'', ''01_segments_5e6f7a8b''] = 1 \<and>
   output_dir_name (next_number [''converted_1a2b3c4d.wav'', ''01_segments_5e6f7a8b''])
     ''9c0d1e2f-0000-4000-8000-000000000000'' = ''01_segments_9c0d1e2f''"
  by (simp add: next_number_def match_run_number_def startswith_def output_dir_name_def
      zfill_def str_nat_small)

section \<open>Splitting\<close>

lemma tool_calls_Nil: "tool_calls [] = []"
  by (simp add: tool_calls_def)

lemma tool_calls_append: "tool_calls (a @ b) = tool_calls a @ tool_calls b"
  by (simp add: tool_calls_def)

lemma tool_calls_Cons:
  "tool_calls (ev # tr) = (case ev of Run cmd out \<Rightarrow> [(cmd, out)] | _ \<Rightarrow> []) @ tool_calls tr"
  by (simp add: tool_calls_def)

lemmas tool_calls_simps = tool_calls_Nil tool_calls_append tool_calls_Cons

lemma extraction_commands_Nil: "extraction_commands wav out i [] = []"
  by (simp add: extraction_commands_def)

lemma extraction_commands_Cons:
  "extraction_commands wav out i (p # ps) =
     segment_command wav out i p # extraction_commands wav out (Suc i) ps"
  by (simp add: extraction_commands_def)

lemma length_extraction_commands: "length (extraction_commands wav out i ps) = length ps"
  by (simp add: extraction_commands_def)

lemma nth_extraction_commands:
  "k < length ps \<Longrightarrow> extraction_commands wav out i ps ! k = segment_command wav out (i + k) (ps ! k)"
  by (simp add: extraction_commands_def nth_enumerate_eq)

text \<open>One round of the loop, by what the tool call gives back.\<close>

lemma extract_loop_not_started:
  assumes "sys_run os (segment_command wav out i p) s = (None, s1)"
  shows "extract_loop os wav out i (p # ps) segs (s, tr) =
           (Inl OSError, (s1, tr @ [Run (segment_command wav out i p) None]))"
  using assms by (simp add: extract_loop.simps Let_def and_then_def subprocess_run_def)

lemma extract_loop_failed:
  assumes "sys_run os (segment_command wav out i p) s = (Some (rc, err), s1)" and "rc \<noteq> 0"
  shows "extract_loop os wav out i (p # ps) segs (s, tr) =
           (Inl (CalledProcessError rc (segment_command wav out i p) None),
            (s1, tr @ [Run (segment_command wav out i p) (Some (rc, err))]))"
  using assms by (simp add: extract_loop.simps Let_def and_then_def subprocess_run_def)

lemma extract_loop_next:
  assumes "sys_run os (segment_command wav out i p) s = (Some (0, err), s1)"
  shows "extract_loop os wav out i (p # ps) segs (s, tr) =
           extract_loop os wav out (Suc i) ps
             (if sys_exists os (join out (segment_name i)) s1
              then segs @ [join out (segment_name i)] else segs)
             (s1, tr @ [Run (segment_command wav out i p) (Some (0, err)),
                        Exists (join out (segment_name i))])"
  using assms by (simp add: extract_loop.simps Let_def and_then_def subprocess_run_def os_path_exists_def)

lemma extract_loop_run:
  assumes "extract_loop os wav out i ps segs (s, tr) = (r, (s', tr'))"
  shows "\<exists>evs. tr' = tr @ evs \<and>
           map fst (tool_calls evs) = take (length (tool_calls evs)) (extraction_commands wav out i ps) \<and>
           list_all exited_zero (butlast (tool_calls evs)) \<and>
           (case r of
              Inr segs' \<Rightarrow> length (tool_calls evs) = length ps \<and> list_all exited_zero (tool_calls evs)
            | Inl e \<Rightarrow>
                \<exists>cmd out. evs \<noteq> [] \<and> last evs = Run cmd out \<and>
                  (out = None \<and> e = OSError \<or>
                   (\<exists>rc err. out = Some (rc, err) \<and> rc \<noteq> 0 \<and> e = CalledProcessError rc cmd None)))"
  using assms
proof (induction ps arbitrary: i segs s tr)
  case Nil
  then show ?case
    by (auto simp: extract_loop.simps return_def tool_calls_simps extraction_commands_Nil intro!: exI[of _ "[]"])
next
  case (Cons p ps)
  let ?cmd = "segment_command wav out i p"
  obtain o1 s1 where run: "sys_run os ?cmd s = (o1, s1)" by (cases "sys_run os ?cmd s")
  show ?case
  proof (cases o1)
    case None
    with run Cons.prems have "r = Inl OSError" "tr' = tr @ [Run ?cmd None]"
      by (simp_all add: extract_loop_not_started)
    then show ?thesis
      by (auto simp: tool_calls_simps extraction_commands_Cons intro!: exI[of _ "[Run ?cmd None]"])
  next
    case (Some a)
    obtain rc err where a: "a = (rc, err)" by (cases a)
    show ?thesis
    proof (cases "rc = 0")
      case False
      with run Some a Cons.prems
      have "r = Inl (CalledProcessError rc ?cmd None)" "tr' = tr @ [Run ?cmd (Some (rc, err))]"
        by (simp_all add: extract_loop_failed)
      with False show ?thesis
        by (auto simp: tool_calls_simps extraction_commands_Cons
                 intro!: exI[of _ "[Run ?cmd (Some (rc, err))]"])
    next
      case True
      let ?pre = "[Run ?cmd (Some (0, err)), Exists (join out (segment_name i))]"
      from run Some a True Cons.prems obtain segs1 where
        "extract_loop os wav out (Suc i) ps segs1 (s1, tr @ ?pre) = (r, (s', tr'))"
        by (simp add: extract_loop_next)
      from Cons.IH[OF this] obtain evs where
        tr': "tr' = (tr @ ?pre) @ evs"
        and pre: "map fst (tool_calls evs) =
                    take (length (tool_calls evs)) (extraction_commands wav out (Suc i) ps)"
        and ok: "list_all exited_zero (butlast (tool_calls evs))"
        and res: "(case r of
              Inr segs' \<Rightarrow> length (tool_calls evs) = length ps \<and> list_all exited_zero (tool_calls evs)
            | Inl e \<Rightarrow>
                \<exists>cmd out. evs \<noteq> [] \<and> last evs = Run cmd out \<and>
                  (out = None \<and> e = OSError \<or>
                   (\<exists>rc err. out = Some (rc, err) \<and> rc \<noteq> 0 \<and> e = CalledProcessError rc cmd None)))"
        by blast
      let ?all = "Run ?cmd (Some (0, err)) # Exists (join out (segment_name i)) # evs"
      have calls: "tool_calls ?all = (?cmd, Some (0, err)) # tool_calls evs"
        by (simp add: tool_calls_simps)
      have z: "exited_zero (?cmd, Some (0, err))" by (simp add: exited_zero_def)
      have 1: "tr' = tr @ ?all" using tr' by simp
      have 2: "map fst (tool_calls ?all) =
                 take (length (tool_calls ?all)) (extraction_commands wav out i (p # ps))"
        using pre by (simp add: calls extraction_commands_Cons)
      have 3: "list_all exited_zero (butlast (tool_calls ?all))"
        using ok z by (simp add: calls)
      have 4: "(case r of
              Inr segs' \<Rightarrow> length (tool_calls ?all) = length (p # ps) \<and>
                            list_all exited_zero (tool_calls ?all)
            | Inl e \<Rightarrow>
                \<exists>cmd out. ?all \<noteq> [] \<and> last ?all = Run cmd out \<and>
                  (out = None \<and> e = OSError \<or>
                   (\<exists>rc err. out = Some (rc, err) \<and> rc \<noteq> 0 \<and> e = CalledProcessError rc cmd None)))"
        using res z by (cases r) (auto simp: calls)
      from 1 2 3 4 show ?thesis by blast
    qed
  qed
qed



lemma split_audio_fixed_run:
  assumes "sys_listdir os (dirname wav) s = Some names"
    and "sys_uuid4 os s = (u, s1)"
    and "sys_makedirs os (allocated_dir wav names u) s1 = (True, s2)"
    and "falsy sp"
    and "sys_run os (fixed_command wav (allocated_dir wav names u)) s2 = (out, s3)"
  shows "split_audio os wav sp (s, tr) =
     (case out of
        None \<Rightarrow>
          (Inl OSError,
           (s3, tr @ allocation wav names u @
                [Run (fixed_command wav (allocated_dir wav names u)) None]))
      | Some (rc, err) \<Rightarrow>
          if rc \<noteq> 0
          then (Inl (Exception_fmt ''Failed to split audio: ''
                      (CalledProcessError rc (fixed_command wav (allocated_dir wav names u)) None)),
                (s3, tr @ allocation wav names u @
                     [Run (fixed_command wav (allocated_dir wav names u)) (Some (rc, err)),
                      Log_error_fmt ''Audio splitting error: ''
                        (CalledProcessError rc (fixed_command wav (allocated_dir wav names u)) None)]))
          else (case sys_listdir os (allocated_dir wav names u) s3 of
                  None \<Rightarrow> Inl OSError
                | Some files \<Rightarrow> Inr (filter (\<lambda>f. endswith f ''.wav'') files),
                (s3, tr @ allocation wav names u @
                     [Run (fixed_command wav (allocated_dir wav names u)) (Some (rc, err)),
                      Listdir (allocated_dir wav names u)])))"
  using assms
  by (simp add: split_audio_def try_except_def and_then_def os_listdir_def uuid4_def
      os_makedirs_def subprocess_run_def raise_def return_def emit_def Let_def
      allocated_dir_def allocation_def split: option.splits)

lemma split_audio_points_run:
  assumes "sys_listdir os (dirname wav) s = Some names"
    and "sys_uuid4 os s = (u, s1)"
    and "sys_makedirs os (allocated_dir wav names u) s1 = (True, s2)"
    and "ps \<noteq> []"
    and "extract_loop os wav (allocated_dir wav names u) 0 ps [] (s2, tr @ allocation wav names u)
           = (r0, (s3, tr3))"
  shows "split_audio os wav (Some ps) (s, tr) =
     (case r0 of
        Inl (CalledProcessError rc cmd err) \<Rightarrow>
          (Inl (Exception_fmt ''Failed to split audio: '' (CalledProcessError rc cmd err)),
           (s3, tr3 @ [Log_error_fmt ''Audio splitting error: '' (CalledProcessError rc cmd err)]))
      | Inl e \<Rightarrow> (Inl e, (s3, tr3))
      | Inr segments \<Rightarrow>
          (case sys_listdir os (allocated_dir wav names u) s3 of
             None \<Rightarrow> Inl OSError
           | Some files \<Rightarrow> Inr (filter (\<lambda>f. endswith f ''.wav'') files),
           (s3, tr3 @ [Listdir (allocated_dir wav names u)])))"
  using assms
  by (simp add: split_audio_def try_except_def and_then_def os_listdir_def uuid4_def
      os_makedirs_def raise_def return_def emit_def Let_def falsy_def points_of_def
      allocated_dir_def allocation_def split: option.splits sum.splits error.splits)


lemma tool_calls_allocation: "tool_calls (allocation wav names u) = []"
  by (simp add: allocation_def tool_calls_simps)

lemma tool_calls_last_Run:
  assumes "evs \<noteq> []" and "last evs = Run cmd out"
  shows "tool_calls evs = tool_calls (butlast evs) @ [(cmd, out)]"
proof -
  from assms have "evs = butlast evs @ [Run cmd out]"
    by (metis append_butlast_last_id)
  then have "tool_calls evs = tool_calls (butlast evs @ [Run cmd out])" by simp
  then show ?thesis by (simp add: tool_calls_simps)
qed

text \<open>What a run of \<^verbatim>\<open>split_audio\<close> on a non-empty list of points appends to the trace.\<close>

lemma split_audio_points_trace:
  assumes ls: "sys_listdir os (dirname wav) s = Some names"
    and id: "sys_uuid4 os s = (u, s1)"
    and mk: "sys_makedirs os (allocated_dir wav names u) s1 = (True, s2)"
    and ne: "ps \<noteq> []"
    and run: "split_audio os wav (Some ps) (s, tr) = (r, (s', tr'))"
  shows "\<exists>evs tail.
           tr' = tr @ allocation wav names u @ evs @ tail \<and>
           map fst (tool_calls evs) =
             take (length (tool_calls evs)) (extraction_commands wav (allocated_dir wav names u) 0 ps) \<and>
           list_all exited_zero (butlast (tool_calls evs)) \<and>
           ((\<exists>files. r = Inr (filter (\<lambda>f. endswith f ''.wav'') files) \<and>
                length (tool_calls evs) = length ps \<and>
                list_all exited_zero (tool_calls evs) \<and>
                tail = [Listdir (allocated_dir wav names u)] \<and>
                sys_listdir os (allocated_dir wav names u) s' = Some files)
            \<or> (r = Inl OSError \<and> length (tool_calls evs) = length ps \<and>
                list_all exited_zero (tool_calls evs) \<and>
                tail = [Listdir (allocated_dir wav names u)] \<and>
                sys_listdir os (allocated_dir wav names u) s' = None)
            \<or> (\<exists>cmd. r = Inl OSError \<and> evs \<noteq> [] \<and> last evs = Run cmd None \<and> tail = [])
            \<or> (\<exists>cmd rc err. rc \<noteq> 0 \<and> evs \<noteq> [] \<and> last evs = Run cmd (Some (rc, err)) \<and>
                  r = Inl (Exception_fmt ''Failed to split audio: '' (CalledProcessError rc cmd None)) \<and>
                  tail = [Log_error_fmt ''Audio splitting error: '' (CalledProcessError rc cmd None)]))"
proof -
  let ?out = "allocated_dir wav names u"
  let ?tr2 = "tr @ allocation wav names u"
  obtain r0 s3 tr3 where loop: "extract_loop os wav ?out 0 ps [] (s2, ?tr2) = (r0, (s3, tr3))"
    by (metis surj_pair)
  note eq = split_audio_points_run [OF ls id mk ne loop]
  from extract_loop_run [OF loop] obtain evs where
    tr3: "tr3 = ?tr2 @ evs"
    and pre: "map fst (tool_calls evs) =
                take (length (tool_calls evs)) (extraction_commands wav ?out 0 ps)"
    and ok: "list_all exited_zero (butlast (tool_calls evs))"
    and res: "(case r0 of
              Inr segs' \<Rightarrow> length (tool_calls evs) = length ps \<and> list_all exited_zero (tool_calls evs)
            | Inl e \<Rightarrow>
                \<exists>cmd out. evs \<noteq> [] \<and> last evs = Run cmd out \<and>
                  (out = None \<and> e = OSError \<or>
                   (\<exists>rc err. out = Some (rc, err) \<and> rc \<noteq> 0 \<and> e = CalledProcessError rc cmd None)))"
    by blast
  show ?thesis
  proof (cases r0)
    case (Inr segs)
    with res have all: "length (tool_calls evs) = length ps" "list_all exited_zero (tool_calls evs)"
      by simp_all
    from eq run Inr have s': "s' = s3" and tr': "tr' = tr3 @ [Listdir ?out]"
      and r: "r = (case sys_listdir os ?out s3 of None \<Rightarrow> Inl OSError
                   | Some files \<Rightarrow> Inr (filter (\<lambda>f. endswith f ''.wav'') files))"
      by simp_all
    show ?thesis
    proof (cases "sys_listdir os ?out s3")
      case None
      with r s' tr' tr3 all pre ok show ?thesis
        by (intro exI[of _ evs] exI[of _ "[Listdir ?out]"]) simp
    next
      case (Some files)
      with r s' tr' tr3 all pre ok show ?thesis
        by (intro exI[of _ evs] exI[of _ "[Listdir ?out]"]) simp
    qed
  next
    case (Inl e)
    with res obtain cmd out where last: "evs \<noteq> []" "last evs = Run cmd out"
      and e: "out = None \<and> e = OSError \<or>
              (\<exists>rc err. out = Some (rc, err) \<and> rc \<noteq> 0 \<and> e = CalledProcessError rc cmd None)"
      by auto
    from e show ?thesis
    proof
      assume a: "out = None \<and> e = OSError"
      with eq run Inl have "r = Inl OSError" "tr' = tr3" by simp_all
      with a last tr3 pre ok show ?thesis
        by (intro exI[of _ evs] exI[of _ "[]"]) auto
    next
      assume "\<exists>rc err. out = Some (rc, err) \<and> rc \<noteq> 0 \<and> e = CalledProcessError rc cmd None"
      then obtain rc err where a: "out = Some (rc, err)" "rc \<noteq> 0" "e = CalledProcessError rc cmd None"
        by blast
      with eq run Inl
      have "r = Inl (Exception_fmt ''Failed to split audio: '' (CalledProcessError rc cmd None))"
        "tr' = tr3 @ [Log_error_fmt ''Audio splitting error: '' (CalledProcessError rc cmd None)]"
        by simp_all
      with a last tr3 pre ok show ?thesis
        by (intro exI[of _ evs]
              exI[of _ "[Log_error_fmt ''Audio splitting error: '' (CalledProcessError rc cmd None)]"])
           auto
    qed
  qed
qed

lemma and_then_apply_cong: "m w = m' w' \<Longrightarrow> and_then m f w = and_then m' f w'"
  by (simp add: and_then_def)

lemma extract_loop_exists_irrelevant:
  "and_then (extract_loop (os\<lparr>sys_exists := ex\<rparr>) wav out i ps segs1) (\<lambda>segments. return ()) w =
   and_then (extract_loop os wav out i ps segs2) (\<lambda>segments. return ()) w"
proof (induction ps arbitrary: i segs1 segs2 w)
  case Nil
  show ?case by (simp add: extract_loop.simps and_then_def return_def)
next
  case (Cons p ps)
  obtain s tr where w: "w = (s, tr)" by (cases w)
  let ?cmd = "segment_command wav out i p"
  obtain o1 s1 where run: "sys_run os ?cmd s = (o1, s1)" by (cases "sys_run os ?cmd s")
  then have run': "sys_run (os\<lparr>sys_exists := ex\<rparr>) ?cmd s = (o1, s1)" by simp
  show ?case
  proof (cases o1)
    case None
    with run run' w show ?thesis
      by (simp add: extract_loop_not_started and_then_def)
  next
    case (Some a)
    obtain rc err where a: "a = (rc, err)" by (cases a)
    show ?thesis
    proof (cases "rc = 0")
      case False
      with run run' w Some a show ?thesis
        by (simp add: extract_loop_failed and_then_def)
    next
      case True
      let ?w1 = "(s1, tr @ [Run ?cmd (Some (0, err)), Exists (join out (segment_name i))])"
      from run Some a True have r0: "sys_run os ?cmd s = (Some (0, err), s1)" by simp
      then have r1: "sys_run (os\<lparr>sys_exists := ex\<rparr>) ?cmd s = (Some (0, err), s1)" by simp
      have e1: "and_then (extract_loop (os\<lparr>sys_exists := ex\<rparr>) wav out i (p # ps) segs1) f (s, tr) =
                and_then (extract_loop (os\<lparr>sys_exists := ex\<rparr>) wav out (Suc i) ps
                  (if sys_exists (os\<lparr>sys_exists := ex\<rparr>) (join out (segment_name i)) s1
                   then segs1 @ [join out (segment_name i)] else segs1)) f ?w1" for f :: "string list \<Rightarrow> ('a, unit) action"
        by (rule and_then_apply_cong) (rule extract_loop_next [OF r1])
      have e2: "and_then (extract_loop os wav out i (p # ps) segs2) f (s, tr) =
                and_then (extract_loop os wav out (Suc i) ps
                  (if sys_exists os (join out (segment_name i)) s1
                   then segs2 @ [join out (segment_name i)] else segs2)) f ?w1" for f :: "string list \<Rightarrow> ('a, unit) action"
        by (rule and_then_apply_cong) (rule extract_loop_next [OF r0])
      show ?thesis
        unfolding w e1 e2 by (rule Cons.IH)
    qed
  qed
qed

lemma split_audio_exists_irrelevant:
  "split_audio (os\<lparr>sys_exists := ex\<rparr>) wav sp w = split_audio os wav sp w"
proof -
  have a: "os_listdir (os\<lparr>sys_exists := ex\<rparr>) = os_listdir os"
    by (simp add: os_listdir_def fun_eq_iff)
  have b: "uuid4 (os\<lparr>sys_exists := ex\<rparr>) = uuid4 os"
    by (simp add: uuid4_def fun_eq_iff)
  have c: "os_makedirs (os\<lparr>sys_exists := ex\<rparr>) = os_makedirs os"
    by (simp add: os_makedirs_def fun_eq_iff)
  have d: "subprocess_run (os\<lparr>sys_exists := ex\<rparr>) = subprocess_run os"
    by (simp add: subprocess_run_def fun_eq_iff)
  have e: "and_then (extract_loop (os\<lparr>sys_exists := ex\<rparr>) wav out i ps segs) (\<lambda>segments. return ()) =
           and_then (extract_loop os wav out i ps segs) (\<lambda>segments. return ())" for out i ps segs
    by (rule ext) (rule extract_loop_exists_irrelevant)
  show ?thesis
    by (simp add: split_audio_def a b c d e Let_def cong: if_cong)
qed



subsection \<open>Runs in the simulated environment\<close>

lemmas sim_eval = sim_def sim_run_def basename_def dirname_def join_def startswith_def endswith_def

lemma dirname_wav_1: "dirname wav_1 = ''/u/output''"
  by (simp add: dirname_def wav_1_def)

lemma sim_listing:
  "sys_listdir (sim d f) (dirname wav_1) converted = Some [''converted_1a2b3c4d.wav'']"
  by (simp add: dirname_wav_1) (simp add: sim_eval converted_def)

lemma sim_draw:
  "sys_uuid4 (sim d f) converted = (''5e6f7a8b-0000-4000-8000-000000000000'', drawn)"
  by (simp add: sim_def converted_def drawn_def)

lemma sim_allocated_dir:
  "allocated_dir wav_1 [''converted_1a2b3c4d.wav''] ''5e6f7a8b-0000-4000-8000-000000000000'' = out_1"
  by (simp add: allocated_dir_def next_number_is_1 output_dir_name_1 dirname_wav_1 out_1_def
      join_def startswith_def endswith_def)

lemma sim_makedirs: "sys_makedirs (sim d f) out_1 drawn = (True, allocated)"
  by (simp add: sim_def drawn_def out_1_def allocated_def)

lemma sim_extract_1:
  "sys_run (sim d (\<lambda>_. None)) (segment_command wav_1 out_1 0 \<lparr>start = 1, end_time = 7 / 2\<rparr>) allocated =
     (Some (0, []), extracted)"
  by (simp add: segment_command_def segment_name_0 ffmpeg_path_def wav_1_def out_1_def
      join_def startswith_def endswith_def)
     (simp add: sim_def sim_run_def allocated_def extracted_def)

lemma sim_listing_extracted:
  "sys_listdir (sim d f) out_1 extracted = Some [''segment_001.wav'']"
  by (simp add: sim_eval extracted_def out_1_def)

lemma sim_split_scenario_from:
  "split_audio (sim d (\<lambda>_. None)) wav_1 (Some [\<lparr>start = 1, end_time = 7 / 2\<rparr>]) (converted, tr) =
     (Inr [''segment_001.wav''], (extracted, tr @ scenario_trace))"
proof -
  let ?os = "sim d (\<lambda>_. None)"
  let ?p = "\<lparr>start = 1, end_time = 7 / 2\<rparr>"
  let ?names = "[''converted_1a2b3c4d.wav'']"
  let ?u = "''5e6f7a8b-0000-4000-8000-000000000000''"
  have mk: "sys_makedirs ?os (allocated_dir wav_1 ?names ?u) drawn = (True, allocated)"
    by (simp add: sim_allocated_dir sim_makedirs)
  have loop: "extract_loop ?os wav_1 (allocated_dir wav_1 ?names ?u) 0 [?p] []
                (allocated, tr @ allocation wav_1 ?names ?u) =
              (Inr [''/u/output/01_segments_5e6f7a8b/segment_001.wav''],
               (extracted, tr @ allocation wav_1 ?names ?u @
                  [Run (segment_command wav_1 out_1 0 ?p) (Some (0, [])),
                   Exists ''/u/output/01_segments_5e6f7a8b/segment_001.wav'']))"
    unfolding sim_allocated_dir
    by (subst extract_loop_next [OF sim_extract_1])
       (simp add: extract_loop.simps return_def segment_name_0 out_1_def join_def startswith_def
          endswith_def sim_def extracted_def)
  show ?thesis
    unfolding split_audio_points_run [OF sim_listing sim_draw mk _ loop, simplified]
    by (simp add: sim_allocated_dir sim_listing_extracted endswith_def)
       (simp add: allocation_def sim_allocated_dir [unfolded wav_1_def out_1_def]
          dirname_wav_1 [unfolded wav_1_def] scenario_trace_def
          segment_command_def segment_name_0 ffmpeg_path_def wav_1_def out_1_def join_def
          startswith_def endswith_def)
qed

lemma sim_split_scenario:
  "split_audio (sim d (\<lambda>_. None)) wav_1 (Some [\<lparr>start = 1, end_time = 7 / 2\<rparr>]) (converted, []) =
     (Inr [''segment_001.wav''], (extracted, scenario_trace))"
  using sim_split_scenario_from [of d "[]"] by simp



lemma segment_command_first:
  "segment_command wav_1 out_1 0 \<lparr>start = 1, end_time = 7 / 2\<rparr> = first_extraction"
  by (simp add: segment_command_def segment_name_0 ffmpeg_path_def wav_1_def out_1_def
      join_def startswith_def endswith_def first_extraction_def)

lemma segment_command_second:
  "segment_command wav_1 out_1 (Suc 0) \<lparr>start = 10, end_time = 12\<rparr> = second_extraction"
  by (simp add: segment_command_def segment_name_1 ffmpeg_path_def wav_1_def out_1_def
      join_def startswith_def endswith_def second_extraction_def)

lemma sim_first_ok:
  "sys_run (sim d failing_second) first_extraction allocated = (Some (0, []), extracted)"
  by (simp add: sim_def sim_run_def failing_second_def first_extraction_def allocated_def
      extracted_def)

lemma sim_second_fails:
  "sys_run (sim d failing_second) second_extraction extracted =
     (Some (1, ''Invalid data found when processing input''), extracted)"
  by (simp add: sim_def sim_run_def failing_second_def second_extraction_def)


lemma sim_split_failing_from:
  "split_audio (sim d failing_second) wav_1 (Some three_points) (converted, tr) =
     (Inl (Exception_fmt ''Failed to split audio: '' (CalledProcessError 1 second_extraction None)),
      (extracted, tr @ failing_trace))"
proof -
  let ?os = "sim d failing_second"
  let ?names = "[''converted_1a2b3c4d.wav'']"
  let ?u = "''5e6f7a8b-0000-4000-8000-000000000000''"
  let ?seg1 = "''/u/output/01_segments_5e6f7a8b/segment_001.wav''"
  have mk: "sys_makedirs ?os (allocated_dir wav_1 ?names ?u) drawn = (True, allocated)"
    by (simp add: sim_allocated_dir sim_makedirs)
  have ne: "three_points \<noteq> []" by (simp add: three_points_def)
  have r1: "sys_run ?os (segment_command wav_1 out_1 0 \<lparr>start = 1, end_time = 7 / 2\<rparr>) allocated =
              (Some (0, []), extracted)"
    by (simp add: segment_command_first sim_first_ok)
  have r2: "sys_run ?os (segment_command wav_1 out_1 (Suc 0) \<lparr>start = 10, end_time = 12\<rparr>) extracted =
              (Some (1, ''Invalid data found when processing input''), extracted)"
    by (simp add: segment_command_second sim_second_fails)
  have loop: "extract_loop ?os wav_1 (allocated_dir wav_1 ?names ?u) 0 three_points []
                (allocated, tr @ allocation wav_1 ?names ?u) =
              (Inl (CalledProcessError 1 second_extraction None),
               (extracted, tr @ allocation wav_1 ?names ?u @
                  [Run first_extraction (Some (0, [])), Exists ?seg1,
                   Run second_extraction (Some (1, ''Invalid data found when processing input''))]))"
    unfolding sim_allocated_dir three_points_def
    by (subst extract_loop_next [OF r1], subst extract_loop_failed [OF r2])
       (simp_all add: segment_command_first [unfolded out_1_def]
          segment_command_second [unfolded out_1_def] segment_name_0 out_1_def
          join_def startswith_def endswith_def)
  show ?thesis
    unfolding split_audio_points_run [OF sim_listing sim_draw mk ne loop, simplified]
    by (simp add: allocation_def sim_allocated_dir dirname_wav_1 failing_trace_def)
       (simp add: out_1_def)
qed

lemma sim_split_failing:
  "split_audio (sim d failing_second) wav_1 (Some three_points) (converted, []) =
     (Inl (Exception_fmt ''Failed to split audio: '' (CalledProcessError 1 second_extraction None)),
      (extracted, failing_trace))"
  using sim_split_failing_from [of d "[]"] by simp





text \<open>
  Claim C4. A batch returned by \<^verbatim>\<open>split_audio\<close> is the listing of the directory the run
  created, taken after the tool has run as the last step of the run, and filtered to
  the names that end in \<^verbatim>\<open>.wav\<close>: names as the listing gives them, not paths. The answers
  of the existence checks do not enter: with any other answers the run gives the same
  batch, the same final state and the same trace.
\<close>

theorem split_audio_returns_listing:
  assumes "sys_listdir os (dirname wav) s = Some names"
    and "sys_uuid4 os s = (u, s1)"
    and "sys_makedirs os (allocated_dir wav names u) s1 = (True, s2)"
    and "split_audio os wav sp (s, tr) = (Inr batch, (s', tr'))"
  shows "(\<exists>files. sys_listdir os (allocated_dir wav names u) s' = Some files \<and>
            batch = filter (\<lambda>f. endswith f ''.wav'') files) \<and>
         (\<exists>evs. tr' = tr @ evs @ [Listdir (allocated_dir wav names u)]) \<and>
         split_audio (os\<lparr>sys_exists := ex\<rparr>) wav sp (s, tr) = (Inr batch, (s', tr'))"
proof -
  let ?out = "allocated_dir wav names u"
  have ind: "split_audio (os\<lparr>sys_exists := ex\<rparr>) wav sp (s, tr) = (Inr batch, (s', tr'))"
    using assms(4) by (simp add: split_audio_exists_irrelevant)
  have "(\<exists>files. sys_listdir os ?out s' = Some files \<and>
            batch = filter (\<lambda>f. endswith f ''.wav'') files) \<and>
         (\<exists>evs. tr' = tr @ evs @ [Listdir ?out])"
  proof (cases "falsy sp")
    case True
    obtain out s3 where run: "sys_run os (fixed_command wav ?out) s2 = (out, s3)"
      by (metis surj_pair)
    from assms(4) show ?thesis
      unfolding split_audio_fixed_run [OF assms(1) assms(2) assms(3) True run]
      by (auto split: option.splits if_splits
          intro!: exI[of _ "allocation wav names u @ [Run (fixed_command wav ?out) out]"])
  next
    case False
    then obtain ps where sp: "sp = Some ps" and ne: "ps \<noteq> []"
      by (auto simp: falsy_def split: option.splits)
    from split_audio_points_trace [OF assms(1) assms(2) assms(3) ne assms(4)[unfolded sp]]
    obtain evs tail files where "tr' = tr @ allocation wav names u @ evs @ tail"
      "Inr batch = Inr (filter (\<lambda>f. endswith f ''.wav'') files)"
      "tail = [Listdir ?out]" "sys_listdir os ?out s' = Some files"
      by auto
    then show ?thesis
      by (auto intro!: exI[of _ "allocation wav names u @ evs"])
  qed
  with ind show ?thesis by blast
qed

theorem split_audio_returns_listing_witness:
  "sys_listdir (sim scenario_text (\<lambda>_. None)) (dirname wav_1) converted =
     Some [''converted_1a2b3c4d.wav''] \<and>
   sys_uuid4 (sim scenario_text (\<lambda>_. None)) converted =
     (''5e6f7a8b-0000-4000-8000-000000000000'', drawn) \<and>
   sys_makedirs (sim scenario_text (\<lambda>_. None))
     (allocated_dir wav_1 [''converted_1a2b3c4d.wav''] ''5e6f7a8b-0000-4000-8000-000000000000'')
     drawn = (True, allocated) \<and>
   split_audio (sim scenario_text (\<lambda>_. None)) wav_1 (Some [\<lparr>start = 1, end_time = 7 / 2\<rparr>])
     (converted, []) = (Inr [''segment_001.wav''], (extracted, scenario_trace)) \<and>
   sys_listdir (sim scenario_text (\<lambda>_. None)) out_1 extracted = Some [''segment_001.wav''] \<and>
   last scenario_trace = Listdir out_1 \<and>
   split_audio ((sim scenario_text (\<lambda>_. None))\<lparr>sys_exists := \<lambda>p s. False\<rparr>) wav_1
     (Some [\<lparr>start = 1, end_time = 7 / 2\<rparr>]) (converted, []) =
     (Inr [''segment_001.wav''], (extracted, scenario_trace))"
proof -
  let ?os = "sim scenario_text (\<lambda>_. None)"
  have mk: "sys_makedirs ?os
     (allocated_dir wav_1 [''converted_1a2b3c4d.wav''] ''5e6f7a8b-0000-4000-8000-000000000000'')
     drawn = (True, allocated)"
    by (simp add: sim_allocated_dir sim_makedirs)
  note inst = split_audio_returns_listing [OF sim_listing sim_draw mk sim_split_scenario,
      of "\<lambda>p s. False"]
  from inst obtain evs where e: "scenario_trace = [] @ evs @
      [Listdir (allocated_dir wav_1 [''converted_1a2b3c4d.wav''] ''5e6f7a8b-0000-4000-8000-000000000000'')]"
    by blast
  have e': "scenario_trace = evs @ [Listdir out_1]"
    using e unfolding sim_allocated_dir by simp
  have l: "last scenario_trace = Listdir out_1"
    by (subst e') simp
  from inst l mk show ?thesis
    by (simp add: sim_listing sim_draw sim_split_scenario sim_listing_extracted)
qed

text \<open>
  Claim C9. On a non-empty list of silence points, if some extraction exits with a
  non-zero status, then \<^verbatim>\<open>split_audio\<close> raises and returns no batch; the failing call is
  the extraction of some point \<open>k\<close>, the extractions made are exactly those of the points
  \<open>0, \<dots>, k\<close>, and after the failing call the run only logs the error: no existence
  check, no further extraction, no listing. The existence checks cannot make the loop
  continue past a failed call, since their answers do not influence the run at all.
\<close>

theorem split_audio_fail_fast:
  assumes "ps \<noteq> []"
    and "sys_listdir os (dirname wav) s = Some names"
    and "sys_uuid4 os s = (u, s1)"
    and "sys_makedirs os (allocated_dir wav names u) s1 = (True, s2)"
    and "split_audio os wav (Some ps) (s, tr) = (r, (s', tr @ new))"
    and "(cmd, Some (rc, err)) \<in> set (tool_calls new)"
    and "rc \<noteq> 0"
  shows "r = Inl (Exception_fmt ''Failed to split audio: '' (CalledProcessError rc cmd None)) \<and>
         (\<exists>k < length ps.
            cmd = segment_command wav (allocated_dir wav names u) k (ps ! k) \<and>
            map fst (tool_calls new) =
              take (Suc k) (extraction_commands wav (allocated_dir wav names u) 0 ps)) \<and>
         (\<exists>before. new = before @
            [Run cmd (Some (rc, err)),
             Log_error_fmt ''Audio splitting error: '' (CalledProcessError rc cmd None)]) \<and>
         split_audio (os\<lparr>sys_exists := ex\<rparr>) wav (Some ps) (s, tr) = (r, (s', tr @ new))"
proof -
  let ?out = "allocated_dir wav names u"
  let ?plan = "extraction_commands wav ?out 0 ps"
  have ind: "split_audio (os\<lparr>sys_exists := ex\<rparr>) wav (Some ps) (s, tr) = (r, (s', tr @ new))"
    using assms(5) by (simp add: split_audio_exists_irrelevant)
  from split_audio_points_trace [OF assms(2) assms(3) assms(4) assms(1) assms(5)]
  obtain evs tail where
    new: "new = allocation wav names u @ evs @ tail"
    and pre: "map fst (tool_calls evs) = take (length (tool_calls evs)) ?plan"
    and ok: "list_all exited_zero (butlast (tool_calls evs))"
    and res: "(\<exists>files. r = Inr (filter (\<lambda>f. endswith f ''.wav'') files) \<and>
                length (tool_calls evs) = length ps \<and>
                list_all exited_zero (tool_calls evs) \<and>
                tail = [Listdir ?out] \<and>
                sys_listdir os ?out s' = Some files)
            \<or> (r = Inl OSError \<and> length (tool_calls evs) = length ps \<and>
                list_all exited_zero (tool_calls evs) \<and>
                tail = [Listdir ?out] \<and>
                sys_listdir os ?out s' = None)
            \<or> (\<exists>cmd. r = Inl OSError \<and> evs \<noteq> [] \<and> last evs = Run cmd None \<and> tail = [])
            \<or> (\<exists>cmd rc err. rc \<noteq> 0 \<and> evs \<noteq> [] \<and> last evs = Run cmd (Some (rc, err)) \<and>
                  r = Inl (Exception_fmt ''Failed to split audio: '' (CalledProcessError rc cmd None)) \<and>
                  tail = [Log_error_fmt ''Audio splitting error: '' (CalledProcessError rc cmd None)])"
    by blast
  from res have tail: "tool_calls tail = []"
    by (auto simp: tool_calls_simps)
  have calls: "tool_calls new = tool_calls evs"
    by (simp add: new tool_calls_append tool_calls_allocation tail)
  have bad: "\<not> exited_zero (cmd, Some (rc, err))"
    using assms(7) by (simp add: exited_zero_def)
  from assms(6) calls have mem: "(cmd, Some (rc, err)) \<in> set (tool_calls evs)" by simp
  with bad have notall: "\<not> list_all exited_zero (tool_calls evs)"
    by (auto simp: list_all_iff)
  from mem have nonempty: "tool_calls evs \<noteq> []" by auto
  have split_last: "x \<in> set (butlast xs) \<or> x = last xs" if "x \<in> set xs" for x :: "'b" and xs
    using that by (induction xs) (auto split: if_splits)
  from split_last [OF mem] ok bad have lastcall: "last (tool_calls evs) = (cmd, Some (rc, err))"
    by (auto simp: list_all_iff)
  from res notall consider
    (notstarted) c where "evs \<noteq> []" "last evs = Run c None"
    | (failed) c rc' err' where "rc' \<noteq> 0" "evs \<noteq> []" "last evs = Run c (Some (rc', err'))"
        "r = Inl (Exception_fmt ''Failed to split audio: '' (CalledProcessError rc' c None))"
        "tail = [Log_error_fmt ''Audio splitting error: '' (CalledProcessError rc' c None)]"
    by blast
  then show ?thesis
  proof cases
    case notstarted
    from tool_calls_last_Run [OF notstarted] lastcall show ?thesis by simp
  next
    case failed
    from tool_calls_last_Run [OF failed(2) failed(3)] lastcall
    have same: "c = cmd" "rc' = rc" "err' = err" by simp_all
    let ?k = "length (tool_calls evs) - 1"
    have "length (map fst (tool_calls evs)) = length (take (length (tool_calls evs)) ?plan)"
      using pre by (rule arg_cong)
    then have le: "length (tool_calls evs) \<le> length ps"
      by (simp add: length_extraction_commands)
    with nonempty have k: "?k < length ps"
      by (cases "tool_calls evs") simp_all
    from nonempty have suc: "Suc ?k = length (tool_calls evs)"
      by (cases "tool_calls evs") simp_all
    have "cmd = fst (last (tool_calls evs))" using lastcall by simp
    also have "\<dots> = last (map fst (tool_calls evs))"
      using nonempty by (simp add: last_map)
    also have "\<dots> = last (take (Suc ?k) ?plan)" using pre suc by simp
    also have "\<dots> = ?plan ! ?k"
      using k by (simp add: take_Suc_conv_app_nth length_extraction_commands)
    also have "\<dots> = segment_command wav ?out ?k (ps ! ?k)"
      using k by (simp add: nth_extraction_commands)
    finally have cmd: "cmd = segment_command wav ?out ?k (ps ! ?k)" .
    have plan: "map fst (tool_calls new) = take (Suc ?k) ?plan"
      using pre suc calls by simp
    have "evs = butlast evs @ [Run cmd (Some (rc, err))]"
      using failed(2) failed(3) same by (metis append_butlast_last_id)
    then have shape: "new = (allocation wav names u @ butlast evs) @
            [Run cmd (Some (rc, err)),
             Log_error_fmt ''Audio splitting error: '' (CalledProcessError rc cmd None)]"
      using new failed(5) same by simp
    from failed(4) same
    have r: "r = Inl (Exception_fmt ''Failed to split audio: '' (CalledProcessError rc cmd None))"
      by simp
    from r k cmd plan shape ind show ?thesis by blast
  qed
qed

theorem split_audio_fail_fast_witness:
  "three_points \<noteq> [] \<and>
   sys_listdir (sim [] failing_second) (dirname wav_1) converted = Some [''converted_1a2b3c4d.wav''] \<and>
   sys_uuid4 (sim [] failing_second) converted = (''5e6f7a8b-0000-4000-8000-000000000000'', drawn) \<and>
   sys_makedirs (sim [] failing_second)
     (allocated_dir wav_1 [''converted_1a2b3c4d.wav''] ''5e6f7a8b-0000-4000-8000-000000000000'')
     drawn = (True, allocated) \<and>
   split_audio (sim [] failing_second) wav_1 (Some three_points) (converted, []) =
     (Inl (Exception_fmt ''Failed to split audio: '' (CalledProcessError 1 second_extraction None)),
      (extracted, [] @ failing_trace)) \<and>
   (second_extraction, Some (1, ''Invalid data found when processing input''))
     \<in> set (tool_calls failing_trace) \<and>
   (1 :: int) \<noteq> 0 \<and>
   map fst (tool_calls failing_trace) = [first_extraction, second_extraction] \<and>
   (\<exists>k < length three_points.
      second_extraction =
        segment_command wav_1
          (allocated_dir wav_1 [''converted_1a2b3c4d.wav''] ''5e6f7a8b-0000-4000-8000-000000000000'')
          k (three_points ! k) \<and>
      map fst (tool_calls failing_trace) =
        take (Suc k)
          (extraction_commands wav_1
             (allocated_dir wav_1 [''converted_1a2b3c4d.wav''] ''5e6f7a8b-0000-4000-8000-000000000000'')
             0 three_points))"
proof -
  let ?os = "sim [] failing_second"
  let ?names = "[''converted_1a2b3c4d.wav'']"
  let ?u = "''5e6f7a8b-0000-4000-8000-000000000000''"
  have ne: "three_points \<noteq> []" by (simp add: three_points_def)
  have mk: "sys_makedirs ?os (allocated_dir wav_1 ?names ?u) drawn = (True, allocated)"
    by (simp add: sim_allocated_dir sim_makedirs)
  have run: "split_audio ?os wav_1 (Some three_points) (converted, []) =
     (Inl (Exception_fmt ''Failed to split audio: '' (CalledProcessError 1 second_extraction None)),
      (extracted, [] @ failing_trace))"
    by (simp add: sim_split_failing)
  have calls: "tool_calls failing_trace =
     [(first_extraction, Some (0, [])),
      (second_extraction, Some (1, ''Invalid data found when processing input''))]"
    by (simp add: failing_trace_def tool_calls_simps)
  have mem: "(second_extraction, Some (1, ''Invalid data found when processing input''))
               \<in> set (tool_calls failing_trace)"
    by (simp add: calls)
  have nz: "(1 :: int) \<noteq> 0" by simp
  from split_audio_fail_fast [OF ne sim_listing sim_draw mk run mem nz]
  have "\<exists>k < length three_points.
      second_extraction = segment_command wav_1 (allocated_dir wav_1 ?names ?u) k (three_points ! k) \<and>
      map fst (tool_calls failing_trace) =
        take (Suc k) (extraction_commands wav_1 (allocated_dir wav_1 ?names ?u) 0 three_points)"
    by blast
  with ne mk run mem show ?thesis
    by (simp add: sim_listing sim_draw calls)
qed


section \<open>The pipeline\<close>

lemma convert_to_wav_run:
  assumes "sys_uuid4 os s = (u, s1)"
    and "sys_makedirs os (join (dirname input) ''output'') s1 = (ok, s2)"
    and "sys_run os (convert_command input (converted_path input u)) s2 = (out, s3)"
  shows "convert_to_wav os input (s, tr) =
     (if \<not> ok
      then (Inl OSError,
            (s2, tr @ [Uuid4, Makedirs (join (dirname input) ''output''),
                       Log_error_fmt ''Conversion error: '' OSError]))
      else (case out of
              None \<Rightarrow>
                (Inl OSError,
                 (s3, tr @ [Uuid4, Makedirs (join (dirname input) ''output''),
                            Run (convert_command input (converted_path input u)) None,
                            Log_error_fmt ''Conversion error: '' OSError]))
            | Some (rc, err) \<Rightarrow>
                if rc \<noteq> 0
                then (Inl (Exception (''Audio conversion failed: '' @ err)),
                      (s3, tr @ [Uuid4, Makedirs (join (dirname input) ''output''),
                                 Run (convert_command input (converted_path input u)) (Some (rc, err)),
                                 Log_error (''FFmpeg conversion error: '' @ err)]))
                else if sys_exists os (converted_path input u) s3
                then (Inr (converted_path input u),
                      (s3, tr @ [Uuid4, Makedirs (join (dirname input) ''output''),
                                 Run (convert_command input (converted_path input u)) (Some (rc, err)),
                                 Exists (converted_path input u),
                                 Log_info (''Successfully converted to WAV: '' @ converted_path input u)]))
                else (Inl (Exception ''WAV conversion failed: Output file not created''),
                      (s3, tr @ [Uuid4, Makedirs (join (dirname input) ''output''),
                                 Run (convert_command input (converted_path input u)) (Some (rc, err)),
                                 Exists (converted_path input u),
                                 Log_error_fmt ''Conversion error: ''
                                   (Exception ''WAV conversion failed: Output file not created'')]))))"
  using assms
  by (simp add: convert_to_wav_def converted_path_def try_except_def and_then_def uuid4_def
      os_makedirs_def subprocess_run_piped_def os_path_exists_def emit_def raise_def return_def
      str_opt_def Let_def split: option.splits)

lemma detect_silence_run:
  assumes "sys_run os (silence_command wav) s = (out, s1)"
  shows "detect_silence os wav (s, tr) =
     (case out of
        None \<Rightarrow> (Inl OSError, (s1, tr @ [Run (silence_command wav) None]))
      | Some (rc, err) \<Rightarrow>
          if rc \<noteq> 0
          then (Inl (Exception (''Silence detection failed: '' @ err)),
                (s1, tr @ [Run (silence_command wav) (Some (rc, err)),
                           Log_error (''Silence detection error: '' @ err)]))
          else (Inr err, (s1, tr @ [Run (silence_command wav) (Some (rc, err))])))"
  using assms
  by (simp add: detect_silence_def try_except_def and_then_def subprocess_run_piped_def
      emit_def raise_def str_opt_def split: option.splits)




lemma process_audio_returns:
  assumes "convert_to_wav os input w = (Inr wav, w1)"
    and "detect_silence os wav w1 = (Inr silence_output, w2)"
    and "split_audio os wav (Some (parse_silence_points silence_output)) w2 = (Inr segments, (s3, tr3))"
  shows "process_audio os input w =
           (Inr segments,
            (s3, tr3 @ [Log_info (''Generated '' @ str_nat (length segments) @ '' audio segments'')]))"
  using assms
  by (simp add: process_audio_def try_except_def and_then_def emit_def return_def Let_def)





subsection \<open>The pipeline in the simulated environment\<close>


lemma sim_identify:
  "sys_uuid4 (sim d f) uploaded = (''1a2b3c4d-0000-4000-8000-000000000000'', identified)"
  by (simp add: sim_def uploaded_def identified_def)

lemma output_dir_upload: "join (dirname ''/u/a.mp3'') ''output'' = ''/u/output''"
  by (simp add: dirname_def join_def startswith_def endswith_def)

lemma sim_prepare:
  "sys_makedirs (sim d f) (join (dirname ''/u/a.mp3'') ''output'') identified = (True, prepared)"
  by (simp add: output_dir_upload) (simp add: sim_def identified_def prepared_def)

lemma converted_path_upload:
  "converted_path ''/u/a.mp3'' ''1a2b3c4d-0000-4000-8000-000000000000'' = wav_1"
  by (simp add: converted_path_def output_dir_upload)
     (simp add: join_def startswith_def endswith_def wav_1_def)

lemma sim_conversion:
  assumes "f (convert_command ''/u/a.mp3'' wav_1) = None"
  shows "sys_run (sim d f)
           (convert_command ''/u/a.mp3''
              (converted_path ''/u/a.mp3'' ''1a2b3c4d-0000-4000-8000-000000000000''))
           prepared = (Some (0, []), converted)"
  unfolding converted_path_upload using assms
  by (simp add: sim_def sim_run_def)
     (simp add: convert_command_def ffmpeg_path_def wav_1_def prepared_def converted_def)

lemma sim_converted_exists: "sys_exists (sim d f) wav_1 converted"
  by (simp add: sim_def wav_1_def converted_def)

lemma sim_convert:
  assumes "f (convert_command ''/u/a.mp3'' wav_1) = None"
  shows "convert_to_wav (sim d f) ''/u/a.mp3'' (uploaded, []) = (Inr wav_1, (converted, conversion_trace))"
  unfolding convert_to_wav_run [OF sim_identify sim_prepare sim_conversion [of f, OF assms]]
  by (simp add: converted_path_upload sim_converted_exists output_dir_upload conversion_trace_def)
     (simp add: wav_1_def)

lemma sim_detect:
  assumes "f (silence_command wav_1) = None"
  shows "detect_silence (sim d f) wav_1 (converted, tr) =
           (Inr d, (converted, tr @ [Run (silence_command wav_1) (Some (0, d))]))"
proof -
  have run: "sys_run (sim d f) (silence_command wav_1) converted = (Some (0, d), converted)"
    using assms by (simp add: sim_def sim_run_def) (simp add: silence_command_def ffmpeg_path_def)
  show ?thesis
    unfolding detect_silence_run [OF run] by simp
qed




lemma sim_process_scenario:
  "process_audio (sim scenario_text (\<lambda>_. None)) ''/u/a.mp3'' (uploaded, []) =
     (Inr [''segment_001.wav''], (extracted, scenario_run_trace))"
  unfolding process_audio_returns [OF sim_convert [of "\<lambda>_. None", OF refl]
      sim_detect [of "\<lambda>_. None", OF refl]
      sim_split_scenario_from [unfolded parse_scenario [symmetric]]]
  by (simp add: scenario_run_trace_def str_nat_small)






end
